theory Spec2Isabelle
  imports Complex_Main
begin

section \<open>Documents of the attendance tracker\<close>

text \<open>
  The program keeps its state in a hosted document store.  A document is a JavaScript
  object; the fields the lifecycle code reads or writes are the fields of the records below.
  A field of type \<open>option\<close> is \<open>None\<close> when the document has no such field or holds
  \<open>null\<close> there: the code tests these fields by truthiness only, which does not tell the
  two apart.  Identifiers are strings, and an identifier is falsy exactly when it is empty.
  Timestamps are integers (milliseconds), coordinates and distances are real numbers (the
  program's floating-point numbers, idealised: no rounding, no NaN).
\<close>

datatype jsval =
    JNull
  | JBool bool
  | JNum real
  | JStr string
  | JIso int  \<comment> \<open>the ISO-8601 string of an instant, as \<open>toISOString\<close> renders it\<close>
  | JObj "string \<Rightarrow> jsval option"

type_synonym bag = "string \<Rightarrow> jsval option"

record geo =
  latitude :: real
  longitude :: real

text \<open>A location as a caller supplies it: a coordinate is \<open>None\<close> when it is not a number.\<close>

record locationData =
  ld_latitude :: "real option"
  ld_longitude :: "real option"

record session =
  s_sessionId :: string
  s_classId :: string
  s_teacherId :: string
  s_startTime :: "int option"
  s_endTime :: "int option"
  s_status :: string
  s_location :: geo
  s_radius :: real
  s_additional :: "bag option"
  s_created_at :: "int option"
  s_lastUpdated :: "int option"

record attendance =
  a_studentId :: "string option"
  a_classId :: "string option"
  a_checkInTime :: "int option"
  a_checkInLocation :: "geo option"
  a_checkOutTime :: "int option"
  a_status :: string
  a_distance :: "real option"
  a_isGpsVerified :: "bool option"
  a_deviceInfo :: "(string \<times> string) option"
  a_additional :: "bag option"
  a_lastUpdated :: "int option"
  a_manuallyUpdated :: "bool option"
  a_manuallyUpdatedBy :: "string option"
  a_manuallyCreated :: "bool option"
  a_manuallyCreatedBy :: "string option"
  a_verificationResponseTime :: "int option"

record teacher_ref =
  t_id :: "string option"
  t_uid :: "string option"

record class_additional =
  ca_teacherId :: "string option"
  ca_teacherUid :: "string option"

record class_doc =
  c_teacherId :: "string option"
  c_teacherUid :: "string option"
  c_teacher_id :: "string option"
  c_teacher_uid :: "string option"
  c_teacher :: "teacher_ref option"
  c_additional :: "class_additional option"
  c_name :: "string option"

record user_doc =
  u_displayName :: "string option"
  u_email :: "string option"

text \<open>The payload a student sends back to a verification request.\<close>

record verificationData =
  vd_location :: "locationData option"
  vd_photoUrl :: "string option"
  vd_additional :: "bag option"

record vrequest =
  v_status :: string
  v_responseTime :: "int option"
  v_responseData :: "verificationData option"
  v_lastUpdated :: "int option"

text \<open>
  The store.  \<open>sessions\<close> is the collection \<open>sessions\<close> (a list, since the code queries
  it); \<open>attendance\<close> and \<open>verificationRequests\<close> are the sub-collections
  \<open>sessions/{sessionId}/attendance\<close> and \<open>sessions/{sessionId}/verificationRequests\<close>, keyed by
  (session id, student id); \<open>classStudents c\<close> lists the document ids of
  \<open>classes/{c}/students\<close> and \<open>userClasses u\<close> those of \<open>userClasses/{u}/classes\<close>.
\<close>

record store =
  sessions :: "(string \<times> session) list"
  attendance :: "string \<times> string \<Rightarrow> attendance option"
  verificationRequests :: "string \<times> string \<Rightarrow> vrequest option"
  classes :: "string \<Rightarrow> class_doc option"
  classStudents :: "string \<Rightarrow> string list"
  userClasses :: "string \<Rightarrow> string list"
  users :: "string \<Rightarrow> user_doc option"

text \<open>
  Every operation catches what it throws and returns \<open>{success: false, error: message}\<close>;
  the model returns \<open>Inl message\<close> for that and \<open>Inr payload\<close> for success, paired with
  the store after the call.
\<close>

type_synonym 'a outcome = "(string + 'a) \<times> store"

subsection \<open>Store primitives\<close>

fun doc_update :: "(string \<times> 'a) list \<Rightarrow> string \<Rightarrow> ('a \<Rightarrow> 'a) \<Rightarrow> (string \<times> 'a) list" where
  "doc_update [] k f = []"
| "doc_update ((k', v) # xs) k f =
     (if k' = k then (k', f v) else (k', v)) # doc_update xs k f"

fun doc_set :: "(string \<times> 'a) list \<Rightarrow> string \<Rightarrow> 'a \<Rightarrow> (string \<times> 'a) list" where
  "doc_set [] k v = [(k, v)]"
| "doc_set ((k', v') # xs) k v =
     (if k' = k then (k, v) # xs else (k', v') # doc_set xs k v)"

text \<open>
  The constructor \<open>GeoPoint\<close> of the store's client library rejects coordinates outside
  the globe; the operations that build one fail there with the library's message (its
  rendering of the offending number left out).
\<close>

definition GeoPoint :: "real \<Rightarrow> real \<Rightarrow> string + geo" where
  "GeoPoint la lo =
     (if la < -90 \<or> 90 < la then Inl ''Latitude must be a number between -90 and 90''
      else if lo < -180 \<or> 180 < lo then Inl ''Longitude must be a number between -180 and 180''
      else Inr \<lparr>latitude = la, longitude = lo\<rparr>)"

text \<open>
  The test \<open>!l || typeof l !== 'object' || typeof l.latitude !== 'number' ||
  typeof l.longitude !== 'number'\<close> that every operation taking a location starts with:
  \<open>numericLocation l\<close> is \<open>None\<close> when the test rejects \<open>l\<close>.
\<close>

definition numericLocation :: "locationData option \<Rightarrow> (real \<times> real) option" where
  "numericLocation l =
     (case l of
        None \<Rightarrow> None
      | Some d \<Rightarrow>
          (case ld_latitude d of
             None \<Rightarrow> None
           | Some la \<Rightarrow> (case ld_longitude d of None \<Rightarrow> None | Some lo \<Rightarrow> Some (la, lo))))"

section \<open>Session lifecycle (teacherHelpers)\<close>

subsection \<open>startAttendanceSession\<close>

definition startAttendanceSession :: "store \<Rightarrow> int \<Rightarrow> string \<Rightarrow> string \<Rightarrow> string outcome" where
  "startAttendanceSession st now sessionId teacherId =
     (if sessionId = [] then (Inl ''Session ID is required'', st)
      else if teacherId = [] then (Inl ''Teacher ID is required'', st)
      else case map_of (sessions st) sessionId of
          None \<Rightarrow> (Inl ''Session not found'', st)
        | Some sessionData \<Rightarrow>
            if s_teacherId sessionData \<noteq> teacherId
            then (Inl ''You do not have permission to start this session'', st)
            else if s_status sessionData = ''active''
            then (Inr ''Session is already active'', st)
            else if s_status sessionData = ''ended''
            then (Inl ''Cannot restart an ended session'', st)
            else (Inr ''Session started successfully'',
                  st\<lparr>sessions := doc_update (sessions st) sessionId
                     (\<lambda>s. s\<lparr>s_status := ''active'', s_startTime := Some now,
                             s_endTime := None\<rparr>)\<rparr>))"

subsection \<open>createAttendanceSession\<close>

record sessionData =
  sd_classId :: string
  sd_location :: "locationData option"
  sd_radius :: "real option"  \<comment> \<open>\<open>None\<close>: missing or not a number\<close>
  sd_additional :: "bag option"

definition isTeacherAuthorized :: "string \<Rightarrow> class_doc \<Rightarrow> bool" where
  "isTeacherAuthorized teacherId classData \<longleftrightarrow>
     c_teacherId classData = Some teacherId \<or>
     c_teacherUid classData = Some teacherId \<or>
     c_teacher_id classData = Some teacherId \<or>
     c_teacher_uid classData = Some teacherId \<or>
     (case c_teacher classData of None \<Rightarrow> False | Some t \<Rightarrow> t_id t = Some teacherId) \<or>
     (case c_teacher classData of None \<Rightarrow> False | Some t \<Rightarrow> t_uid t = Some teacherId) \<or>
     (case c_additional classData of None \<Rightarrow> False | Some a \<Rightarrow> ca_teacherId a = Some teacherId) \<or>
     (case c_additional classData of None \<Rightarrow> False | Some a \<Rightarrow> ca_teacherUid a = Some teacherId)"

text \<open>The query \<open>where classId == c, where status == 'active'\<close> on the sessions.\<close>

definition activeSessionsSnapshot :: "store \<Rightarrow> string \<Rightarrow> (string \<times> session) list" where
  "activeSessionsSnapshot st c =
     filter (\<lambda>(ref, s). s_classId s = c \<and> s_status s = ''active'') (sessions st)"

text \<open>The loop over the snapshot: a session without \<open>endTime\<close> is truly active, the others
  are collected to be fixed.\<close>

definition hasActiveSession :: "(string \<times> session) list \<Rightarrow> bool" where
  "hasActiveSession docs \<longleftrightarrow> list_ex (\<lambda>(ref, s). s_endTime s = None) docs"

definition sessionsToFix :: "(string \<times> session) list \<Rightarrow> string list" where
  "sessionsToFix docs = map fst (filter (\<lambda>(ref, s). s_endTime s \<noteq> None) docs)"

text \<open>The batch that marks the collected sessions as ended.\<close>

definition fixSessions :: "int \<Rightarrow> string list \<Rightarrow> (string \<times> session) list \<Rightarrow> (string \<times> session) list" where
  "fixSessions now refs ss =
     fold (\<lambda>ref acc. doc_update acc ref (\<lambda>s. s\<lparr>s_status := ''ended'', s_lastUpdated := Some now\<rparr>))
       refs ss"

definition orNull :: "string option \<Rightarrow> jsval" where
  "orNull v = (case v of None \<Rightarrow> JNull | Some s \<Rightarrow> if s = [] then JNull else JStr s)"

definition classReference :: "string \<Rightarrow> class_doc \<Rightarrow> jsval" where
  "classReference classId classData =
     JObj (Map.empty(
       ''id'' \<mapsto> JStr classId,
       ''teacherId'' \<mapsto> orNull (c_teacherId classData),
       ''teacherUid'' \<mapsto> orNull (c_teacherUid classData),
       ''name'' \<mapsto> (case c_name classData of
                       None \<Rightarrow> JStr ''Unknown Class''
                     | Some n \<Rightarrow> if n = [] then JStr ''Unknown Class'' else JStr n)))"

text \<open>
  \<open>newId\<close> is the identifier the store generates for the new document and \<open>now\<close> the
  server's time.  The \<open>GeoPoint\<close> of the new session is built after the batch that fixes
  stale sessions has been committed.
\<close>

definition createAttendanceSession ::
  "store \<Rightarrow> int \<Rightarrow> string \<Rightarrow> string \<Rightarrow> sessionData option \<Rightarrow> session outcome" where
  "createAttendanceSession st now newId teacherId sessionData =
     (if teacherId = [] then (Inl ''Teacher ID is required'', st)
      else case sessionData of
          None \<Rightarrow> (Inl ''Class ID is required'', st)
        | Some sd \<Rightarrow>
      if sd_classId sd = [] then (Inl ''Class ID is required'', st)
      else case numericLocation (sd_location sd) of
          None \<Rightarrow> (Inl ''Valid location data is required'', st)
        | Some (la, lo) \<Rightarrow>
      case sd_radius sd of
          None \<Rightarrow> (Inl ''Valid radius is required'', st)
        | Some radius \<Rightarrow>
      if radius = 0 then (Inl ''Valid radius is required'', st)
      else case classes st (sd_classId sd) of
          None \<Rightarrow> (Inl ''Class not found'', st)
        | Some classData \<Rightarrow>
      if \<not> isTeacherAuthorized teacherId classData
      then (Inl ''You do not have permission to create sessions for this class'', st)
      else let docs = activeSessionsSnapshot st (sd_classId sd) in
      if hasActiveSession docs
      then (Inl ''There is already an active session for this class'', st)
      else let st1 = st\<lparr>sessions := fixSessions now (sessionsToFix docs) (sessions st)\<rparr>;
               additional = (case sd_additional sd of None \<Rightarrow> Map.empty | Some b \<Rightarrow> b)
                              (''classReference'' \<mapsto> classReference (sd_classId sd) classData)
      in case GeoPoint la lo of
          Inl e \<Rightarrow> (Inl e, st1)
        | Inr gp \<Rightarrow>
            let fullSessionData =
              \<lparr>s_sessionId = newId, s_classId = sd_classId sd, s_teacherId = teacherId,
               s_startTime = Some now, s_endTime = None, s_status = ''active'',
               s_location = gp, s_radius = radius, s_additional = Some additional,
               s_created_at = Some now, s_lastUpdated = None\<rparr>
            in (Inr fullSessionData, st1\<lparr>sessions := doc_set (sessions st1) newId fullSessionData\<rparr>))"

subsection \<open>updateSessionLocation\<close>

record location_update =
  lu_location :: "real \<times> real"
  lu_radius :: real
  lu_additional :: bag

definition updateSessionLocation ::
  "store \<Rightarrow> int \<Rightarrow> string \<Rightarrow> string \<Rightarrow> locationData option \<Rightarrow> real option \<Rightarrow> bag
     \<Rightarrow> location_update outcome" where
  "updateSessionLocation st now sessionId teacherId location radius additionalData =
     (if sessionId = [] then (Inl ''Session ID is required'', st)
      else if teacherId = [] then (Inl ''Teacher ID is required'', st)
      else case numericLocation location of
          None \<Rightarrow> (Inl ''Valid location data is required'', st)
        | Some (la, lo) \<Rightarrow>
      case radius of
          None \<Rightarrow> (Inl ''Valid radius is required'', st)
        | Some r \<Rightarrow>
      if r \<le> 0 then (Inl ''Valid radius is required'', st)
      else case map_of (sessions st) sessionId of
          None \<Rightarrow> (Inl ''Session not found'', st)
        | Some sessionData \<Rightarrow>
      if s_teacherId sessionData \<noteq> teacherId
      then (Inl ''You do not have permission to update this session'', st)
      else if s_status sessionData \<noteq> ''active''
      then (Inl ''Cannot update location for an inactive session'', st)
      else
        let updatedAdditionalData = (case s_additional sessionData of
                                       None \<Rightarrow> additionalData
                                     | Some existing \<Rightarrow> existing ++ additionalData)
        in case GeoPoint la lo of
            Inl e \<Rightarrow> (Inl e, st)
          | Inr gp \<Rightarrow>
              (Inr \<lparr>lu_location = (la, lo), lu_radius = r,
                    lu_additional = updatedAdditionalData\<rparr>,
               st\<lparr>sessions := doc_update (sessions st) sessionId
                  (\<lambda>s. s\<lparr>s_location := gp, s_radius := r,
                          s_additional := Some updatedAdditionalData,
                          s_lastUpdated := Some now\<rparr>)\<rparr>))"

section \<open>Geofence (sharedHelpers)\<close>

text \<open>\<open>Math.atan2 y x\<close> on real numbers.\<close>

definition atan2 :: "real \<Rightarrow> real \<Rightarrow> real" where
  "atan2 y x =
     (if 0 < x then arctan (y / x)
      else if x < 0 then (if 0 \<le> y then arctan (y / x) + pi else arctan (y / x) - pi)
      else if 0 < y then pi / 2
      else if y < 0 then - (pi / 2)
      else 0)"

definition calculateDistance :: "geo \<Rightarrow> geo \<Rightarrow> real" where
  "calculateDistance point1 point2 =
     (let R = 6371000;
          phi1 = latitude point1 * pi / 180;
          phi2 = latitude point2 * pi / 180;
          dphi = (latitude point2 - latitude point1) * pi / 180;
          dlambda = (longitude point2 - longitude point1) * pi / 180;
          a = sin (dphi / 2) * sin (dphi / 2) +
              cos phi1 * cos phi2 * sin (dlambda / 2) * sin (dlambda / 2);
          c = 2 * atan2 (sqrt a) (sqrt (1 - a))
      in R * c)"

record validation =
  isWithinRadius :: bool
  distance :: real
  sessionRadius :: real

definition validateLocationForSession ::
  "store \<Rightarrow> string \<Rightarrow> locationData option \<Rightarrow> string + validation" where
  "validateLocationForSession st sessionId studentLocation =
     (if sessionId = [] then Inl ''Session ID is required''
      else case numericLocation studentLocation of
          None \<Rightarrow> Inl ''Valid student location is required (must include latitude and longitude)''
        | Some (la, lo) \<Rightarrow>
      case map_of (sessions st) sessionId of
          None \<Rightarrow> Inl ''Session not found''
        | Some sessionData \<Rightarrow>
      if s_status sessionData \<noteq> ''active''
      then Inl (''Session is '' @ s_status sessionData @ '', not active'')
      else let d = calculateDistance (s_location sessionData) \<lparr>latitude = la, longitude = lo\<rparr>
           in Inr \<lparr>isWithinRadius = (d \<le> s_radius sessionData), distance = d,
                   sessionRadius = s_radius sessionData\<rparr>)"

section \<open>Attendance (studentHelpers)\<close>

subsection \<open>checkInToSession\<close>

record checkin_result =
  ci_record :: attendance  \<comment> \<open>the attendance data written, spread into the result\<close>
  ci_isWithinRadius :: bool
  ci_message :: string

text \<open>\<open>deviceInfo\<close> is the browser's \<open>(userAgent, platform)\<close>.\<close>

definition checkInToSession ::
  "store \<Rightarrow> int \<Rightarrow> string \<times> string \<Rightarrow> string \<Rightarrow> string \<Rightarrow> locationData option \<Rightarrow> bag
     \<Rightarrow> checkin_result outcome" where
  "checkInToSession st now deviceInfo sessionId studentId locationData additionalData =
     (if sessionId = [] then (Inl ''Session ID is required'', st)
      else if studentId = [] then (Inl ''Student ID is required'', st)
      else case numericLocation locationData of
          None \<Rightarrow> (Inl ''Valid location data is required'', st)
        | Some (la, lo) \<Rightarrow>
      case map_of (sessions st) sessionId of
          None \<Rightarrow> (Inl ''Session not found'', st)
        | Some sessionData \<Rightarrow>
      if s_status sessionData \<noteq> ''active''
      then (Inl (''Session is '' @ s_status sessionData @ '', not active''), st)
      else if s_classId sessionData \<notin> set (userClasses st studentId)
      then (Inl ''You are not enrolled in this class'', st)
      else if attendance st (sessionId, studentId) \<noteq> None
      then (Inl ''You have already checked in to this session'', st)
      else case validateLocationForSession st sessionId locationData of
          Inl e \<Rightarrow> (Inl (''Location validation failed: '' @ e), st)
        | Inr v \<Rightarrow>
      case GeoPoint la lo of
          Inl e \<Rightarrow> (Inl e, st)
        | Inr gp \<Rightarrow>
            let attendanceData =
              \<lparr>a_studentId = Some studentId, a_classId = Some (s_classId sessionData),
               a_checkInTime = Some now, a_checkInLocation = Some gp, a_checkOutTime = None,
               a_status = (if isWithinRadius v then ''verified'' else ''failed_location''),
               a_distance = Some (distance v), a_isGpsVerified = Some (isWithinRadius v),
               a_deviceInfo = Some deviceInfo, a_additional = Some additionalData,
               a_lastUpdated = Some now, a_manuallyUpdated = None, a_manuallyUpdatedBy = None,
               a_manuallyCreated = None, a_manuallyCreatedBy = None,
               a_verificationResponseTime = None\<rparr>
            in (Inr \<lparr>ci_record = attendanceData, ci_isWithinRadius = isWithinRadius v,
                      ci_message = (if isWithinRadius v
                        then ''Check-in successful! Your attendance has been verified.''
                        else ''Check-in recorded, but you are outside the allowed radius.'')\<rparr>,
                st\<lparr>attendance := (attendance st)((sessionId, studentId) \<mapsto> attendanceData)\<rparr>))"

subsection \<open>checkOutFromSession\<close>

text \<open>
  Object spread \<open>{...v}\<close> of a field that may be missing: nothing unless it is an object.
  (A string spreads to its characters; \<open>checkoutInfo\<close> is only ever written as an object.)
\<close>

definition spread :: "jsval option \<Rightarrow> bag" where
  "spread v = (case v of Some (JObj m) \<Rightarrow> m | _ \<Rightarrow> Map.empty)"

text \<open>\<open>Math.round\<close> of a quotient of integers: the nearest integer, halves upwards.\<close>

definition roundDiv :: "int \<Rightarrow> int \<Rightarrow> int" where
  "roundDiv n d = \<lfloor>(of_int n :: real) / of_int d + 1 / 2\<rfloor>"

record checkout_response =
  co_sessionId :: string
  co_studentId :: string
  co_checkInTime :: "int option"
  co_checkOutTime :: int
  co_status :: string
  co_durationMinutes :: "int option"
  co_additional :: bag

datatype checkout_data = Existing attendance | CheckedOut checkout_response

record checkout_result =
  co_message :: string
  co_data :: checkout_data

text \<open>\<open>now\<close> is the server's time (the value of the \<open>serverTimestamp\<close> sentinel) and
  \<open>clientNow\<close> the browser's clock, \<open>new Date()\<close>.\<close>

definition checkOutFromSession ::
  "store \<Rightarrow> int \<Rightarrow> int \<Rightarrow> string \<Rightarrow> string \<Rightarrow> bag \<Rightarrow> checkout_result outcome" where
  "checkOutFromSession st now clientNow sessionId studentId additionalData =
     (if sessionId = [] then (Inl ''Session ID is required'', st)
      else if studentId = [] then (Inl ''Student ID is required'', st)
      else case map_of (sessions st) sessionId of
          None \<Rightarrow> (Inl ''Session not found'', st)
        | Some sessionData \<Rightarrow>
      if s_status sessionData \<noteq> ''active''
      then (Inl ''Cannot check out from an inactive session'', st)
      else case attendance st (sessionId, studentId) of
          None \<Rightarrow> (Inl ''No attendance record found. You must check in before you can check out.'', st)
        | Some attendanceData \<Rightarrow>
      if a_checkOutTime attendanceData \<noteq> None
      then (Inr \<lparr>co_message = ''You have already checked out from this session'',
                 co_data = Existing attendanceData\<rparr>, st)
      else
        let merged0 = (case a_additional attendanceData of
                         None \<Rightarrow> additionalData
                       | Some existing \<Rightarrow> existing ++ additionalData);
            merged1 = (if additionalData \<noteq> Map.empty
                       then merged0(''checkoutInfo'' \<mapsto>
                              JObj ((spread (merged0 ''checkoutInfo''))(''timestamp'' \<mapsto> JIso clientNow)
                                    ++ additionalData))
                       else merged0);
            durationMinutes = (case a_checkInTime attendanceData of
                                 None \<Rightarrow> None
                               | Some checkInTime \<Rightarrow> Some (roundDiv (clientNow - checkInTime) (1000 * 60)));
            mergedAdditionalData = (case durationMinutes of
                                      None \<Rightarrow> merged1
                                    | Some m \<Rightarrow> merged1(''durationMinutes'' \<mapsto> JNum (of_int m)));
            early = (a_status attendanceData = ''pending_verification'' \<or>
                     a_status attendanceData = ''pending_checkin'');
            updated0 = attendanceData\<lparr>a_checkOutTime := Some now, a_lastUpdated := Some now,
                                      a_additional := Some mergedAdditionalData\<rparr>;
            updated = (if early then updated0\<lparr>a_status := ''checked_out_early_before_verification''\<rparr>
                       else updated0)
        in (Inr \<lparr>co_message = ''Checked out successfully'',
                  co_data = CheckedOut
                    \<lparr>co_sessionId = sessionId, co_studentId = studentId,
                     co_checkInTime = a_checkInTime attendanceData, co_checkOutTime = now,
                     co_status = (if early then ''checked_out_early_before_verification''
                                  else a_status attendanceData),
                     co_durationMinutes = durationMinutes,
                     co_additional = mergedAdditionalData\<rparr>\<rparr>,
            st\<lparr>attendance := (attendance st)((sessionId, studentId) \<mapsto> updated)\<rparr>))"

subsection \<open>respondToVerificationRequest\<close>



section \<open>Server-side check-in (data operations of the functions server)\<close>

record checkInStudent_result =
  cs_status :: string
  cs_distance :: int
  cs_allowedRadius :: real

text \<open>
  \<open>checkInStudent\<close> rethrows its errors; \<open>Inl\<close> is the message of the error thrown.
  The session and student ids are document ids, hence not empty.
\<close>

definition checkInStudent ::
  "store \<Rightarrow> int \<Rightarrow> string \<Rightarrow> string \<Rightarrow> geo \<Rightarrow> checkInStudent_result outcome" where
  "checkInStudent st now sessionId studentId location =
     (case map_of (sessions st) sessionId of
          None \<Rightarrow> (Inl (''Session '' @ sessionId @ '' not found''), st)
        | Some sessionDocData \<Rightarrow>
      if s_status sessionDocData \<noteq> ''active'' then (Inl ''Session is not active'', st)
      else if studentId \<notin> set (classStudents st (s_classId sessionDocData))
      then (Inl ''Student not enrolled in this class'', st)
      else if (case attendance st (sessionId, studentId) of
                 None \<Rightarrow> False
               | Some a \<Rightarrow> a_status a = ''checked_in'' \<or> a_status a = ''verified'')
      then (Inl ''Already checked in'', st)
      else case GeoPoint (latitude location) (longitude location) of
          Inl e \<Rightarrow> (Inl e, st)
        | Inr studentLocation \<Rightarrow>
            let allowedRadius = s_radius sessionDocData;
                d = calculateDistance
                      \<lparr>latitude = latitude (s_location sessionDocData),
                       longitude = longitude (s_location sessionDocData)\<rparr>
                      \<lparr>latitude = latitude location, longitude = longitude location\<rparr>;
                isLocationValid = (d \<le> allowedRadius);
                checkInStatus = (if isLocationValid then ''verified'' else ''failed_location'')
            in (Inr \<lparr>cs_status = checkInStatus, cs_distance = \<lfloor>d + 1 / 2\<rfloor>,
                      cs_allowedRadius = allowedRadius\<rparr>,
                st\<lparr>attendance := (attendance st)((sessionId, studentId) \<mapsto>
                     \<lparr>a_studentId = None, a_classId = Some (s_classId sessionDocData),
                      a_checkInTime = Some now, a_checkInLocation = Some studentLocation,
                      a_checkOutTime = None, a_status = checkInStatus, a_distance = None,
                      a_isGpsVerified = Some isLocationValid, a_deviceInfo = None,
                      a_additional = None, a_lastUpdated = Some now, a_manuallyUpdated = None,
                      a_manuallyUpdatedBy = None, a_manuallyCreated = None,
                      a_manuallyCreatedBy = None, a_verificationResponseTime = None\<rparr>)\<rparr>))"

section \<open>Teacher's view and override (teacherHelpers)\<close>

subsection \<open>getSessionAttendance\<close>

text \<open>
  One line of the attendance sheet.  The formatted dates and the attendance rate, which
  only render the fields below, are left out.
\<close>

record sheet_line =
  sl_studentId :: string
  sl_displayName :: string
  sl_email :: string
  sl_attended :: bool
  sl_status :: string
  sl_checkInTime :: "int option"
  sl_checkOutTime :: "int option"
  sl_distance :: "real option"
  sl_isGpsVerified :: "bool option"

record sheet =
  sh_sessionId :: string
  sh_classId :: string
  sh_status :: string
  sh_enrolledStudentCount :: nat
  sh_presentCount :: nat
  sh_verified :: nat
  sh_failed :: nat
  sh_earlyCheckout :: nat
  sh_absent :: nat
  sh_records :: "sheet_line list"

definition orDefault :: "string option \<Rightarrow> string \<Rightarrow> string" where
  "orDefault v d = (case v of None \<Rightarrow> d | Some s \<Rightarrow> if s = [] then d else s)"

definition sheetLine :: "store \<Rightarrow> string \<Rightarrow> string \<Rightarrow> sheet_line" where
  "sheetLine st sessionId studentId =
     (let userData = (case users st studentId of
                        None \<Rightarrow> \<lparr>u_displayName = Some ''Unknown Student'', u_email = Some ''unknown''\<rparr>
                      | Some u \<Rightarrow> u);
          displayName = orDefault (u_displayName userData) ''No Name'';
          email = orDefault (u_email userData) ''No Email''
      in case attendance st (sessionId, studentId) of
           Some attendanceRecord \<Rightarrow>
             \<lparr>sl_studentId = studentId, sl_displayName = displayName, sl_email = email,
              sl_attended = True, sl_status = a_status attendanceRecord,
              sl_checkInTime = a_checkInTime attendanceRecord,
              sl_checkOutTime = a_checkOutTime attendanceRecord,
              sl_distance = a_distance attendanceRecord,
              sl_isGpsVerified = a_isGpsVerified attendanceRecord\<rparr>
         | None \<Rightarrow>
             \<lparr>sl_studentId = studentId, sl_displayName = displayName, sl_email = email,
              sl_attended = False, sl_status = ''absent'',
              sl_checkInTime = None, sl_checkOutTime = None, sl_distance = None,
              sl_isGpsVerified = None\<rparr>)"

definition countStatus :: "string \<Rightarrow> sheet_line list \<Rightarrow> nat" where
  "countStatus s records = length (filter (\<lambda>record. sl_status record = s) records)"

text \<open>An empty \<open>teacherId\<close> stands for the optional argument left out.\<close>

definition getSessionAttendance :: "store \<Rightarrow> string \<Rightarrow> string \<Rightarrow> string + sheet" where
  "getSessionAttendance st sessionId teacherId =
     (if sessionId = [] then Inl ''Session ID is required''
      else case map_of (sessions st) sessionId of
          None \<Rightarrow> Inl ''Session not found''
        | Some sessionData \<Rightarrow>
      if teacherId \<noteq> [] \<and> s_teacherId sessionData \<noteq> teacherId
      then Inl ''You do not have permission to view attendance for this session''
      else
        let enrolledStudentIds = classStudents st (s_classId sessionData);
            attendanceRecords = map (sheetLine st sessionId) enrolledStudentIds;
            verified = countStatus ''verified'' attendanceRecords;
            failed = countStatus ''failed_location'' attendanceRecords;
            earlyCheckout = countStatus ''checked_out_early_before_verification'' attendanceRecords;
            absent = countStatus ''absent'' attendanceRecords
        in Inr \<lparr>sh_sessionId = sessionId, sh_classId = s_classId sessionData,
                 sh_status = s_status sessionData,
                 sh_enrolledStudentCount = length enrolledStudentIds,
                 sh_presentCount = verified + failed + earlyCheckout,
                 sh_verified = verified, sh_failed = failed, sh_earlyCheckout = earlyCheckout,
                 sh_absent = absent, sh_records = attendanceRecords\<rparr>)"

subsection \<open>manuallyMarkAttendance\<close>

definition validStatuses :: "string list" where
  "validStatuses =
     [''verified'', ''failed_location'', ''checked_out_early_before_verification'', ''absent'']"

record mark_result =
  mr_message :: string
  mr_status :: string
  mr_additionalData :: bag

definition manuallyMarkAttendance ::
  "store \<Rightarrow> int \<Rightarrow> string \<Rightarrow> string \<Rightarrow> string \<Rightarrow> string \<Rightarrow> bag \<Rightarrow> mark_result outcome" where
  "manuallyMarkAttendance st now sessionId studentId status teacherId additionalData =
     (if sessionId = [] then (Inl ''Session ID is required'', st)
      else if studentId = [] then (Inl ''Student ID is required'', st)
      else if status = [] then (Inl ''Status is required'', st)
      else if teacherId = [] then (Inl ''Teacher ID is required'', st)
      else if status \<notin> set validStatuses
      then (Inl (''Invalid status. Must be one of: verified, failed_location, '' @
                 ''checked_out_early_before_verification, absent''), st)
      else case map_of (sessions st) sessionId of
          None \<Rightarrow> (Inl ''Session not found'', st)
        | Some sessionData \<Rightarrow>
      if s_teacherId sessionData \<noteq> teacherId
      then (Inl ''You do not have permission to update attendance for this session'', st)
      else if studentId \<notin> set (classStudents st (s_classId sessionData))
      then (Inl ''Student is not enrolled in this class'', st)
      else
        let attendanceDoc = attendance st (sessionId, studentId);
            result = \<lparr>mr_message = ''Student attendance successfully marked as '' @
                                     [CHR 0x27] @ status @ [CHR 0x27],
                      mr_status = status, mr_additionalData = additionalData\<rparr>
        in if status = ''absent''
           then (Inr result, st\<lparr>attendance := (attendance st)((sessionId, studentId) := None)\<rparr>)
           else case attendanceDoc of
               Some existingData \<Rightarrow>
                 let mergedAdditionalData = (case a_additional existingData of
                                               None \<Rightarrow> additionalData
                                             | Some existing \<Rightarrow> existing ++ additionalData)
                 in (Inr result,
                     st\<lparr>attendance := (attendance st)((sessionId, studentId) \<mapsto>
                          existingData\<lparr>a_status := status, a_lastUpdated := Some now,
                                       a_manuallyUpdated := Some True,
                                       a_manuallyUpdatedBy := Some teacherId,
                                       a_additional := Some mergedAdditionalData\<rparr>)\<rparr>)
             | None \<Rightarrow>
                 (Inr result,
                  st\<lparr>attendance := (attendance st)((sessionId, studentId) \<mapsto>
                       \<lparr>a_studentId = Some studentId, a_classId = Some (s_classId sessionData),
                        a_checkInTime = Some now, a_checkInLocation = None,
                        a_checkOutTime = None, a_status = status, a_distance = None,
                        a_isGpsVerified = Some (status = ''verified''), a_deviceInfo = None,
                        a_additional = Some additionalData, a_lastUpdated = Some now,
                        a_manuallyUpdated = None, a_manuallyUpdatedBy = None,
                        a_manuallyCreated = Some True, a_manuallyCreatedBy = Some teacherId,
                        a_verificationResponseTime = None\<rparr>)\<rparr>))"

section \<open>Example stores\<close>

text \<open>
  A class \<open>c1\<close> of teacher \<open>t1\<close> with one enrolled student \<open>u1\<close>; sessions are
  centred at latitude 0, longitude 0 with a radius of 50 metres.
\<close>

definition ex_session :: "string \<Rightarrow> string \<Rightarrow> int option \<Rightarrow> session" where
  "ex_session sid status endTime =
     \<lparr>s_sessionId = sid, s_classId = ''c1'', s_teacherId = ''t1'', s_startTime = Some 1000,
      s_endTime = endTime, s_status = status,
      s_location = \<lparr>latitude = 0, longitude = 0\<rparr>, s_radius = 50,
      s_additional = None, s_created_at = Some 1000, s_lastUpdated = None\<rparr>"

definition ex_class :: class_doc where
  "ex_class = \<lparr>c_teacherId = Some ''t1'', c_teacherUid = None, c_teacher_id = None,
      c_teacher_uid = None, c_teacher = None, c_additional = None, c_name = Some ''Algebra''\<rparr>"

definition ex_attendance :: "string \<Rightarrow> int option \<Rightarrow> attendance" where
  "ex_attendance status checkOutTime =
     \<lparr>a_studentId = Some ''u1'', a_classId = Some ''c1'', a_checkInTime = Some 2000,
      a_checkInLocation = Some \<lparr>latitude = 0, longitude = 0\<rparr>, a_checkOutTime = checkOutTime,
      a_status = status, a_distance = Some 0, a_isGpsVerified = Some (status = ''verified''),
      a_deviceInfo = None, a_additional = None, a_lastUpdated = Some 2000,
      a_manuallyUpdated = None, a_manuallyUpdatedBy = None, a_manuallyCreated = None,
      a_manuallyCreatedBy = None, a_verificationResponseTime = None\<rparr>"

definition ex_store :: "(string \<times> session) list \<Rightarrow> (string \<times> string \<Rightarrow> attendance option) \<Rightarrow> store" where
  "ex_store ss att =
     \<lparr>sessions = ss, attendance = att, verificationRequests = Map.empty,
      classes = [''c1'' \<mapsto> ex_class],
      classStudents = (\<lambda>c. if c = ''c1'' then [''u1''] else []),
      userClasses = (\<lambda>u. if u = ''u1'' then [''c1''] else []),
      users = Map.empty\<rparr>"

definition ex_checkin :: "real \<Rightarrow> real \<Rightarrow> bool \<Rightarrow> attendance" where
  "ex_checkin lo d ok =
     \<lparr>a_studentId = Some ''u1'', a_classId = Some ''c1'', a_checkInTime = Some 5000,
      a_checkInLocation = Some \<lparr>latitude = 0, longitude = lo\<rparr>, a_checkOutTime = None,
      a_status = (if ok then ''verified'' else ''failed_location''), a_distance = Some d,
      a_isGpsVerified = Some ok, a_deviceInfo = Some (''agent'', ''platform''),
      a_additional = Some Map.empty, a_lastUpdated = Some 5000,
      a_manuallyUpdated = None, a_manuallyUpdatedBy = None, a_manuallyCreated = None,
      a_manuallyCreatedBy = None, a_verificationResponseTime = None\<rparr>"

definition ex_location :: "real \<Rightarrow> locationData option" where
  "ex_location lo = Some \<lparr>ld_latitude = Some 0, ld_longitude = Some lo\<rparr>"


definition ex_sessionData :: "real \<Rightarrow> sessionData" where
  "ex_sessionData r =
     \<lparr>sd_classId = ''c1'', sd_location = ex_location 0, sd_radius = Some r,
      sd_additional = None\<rparr>"



definition ex_manual :: "string \<Rightarrow> attendance" where
  "ex_manual status =
     \<lparr>a_studentId = Some ''u1'', a_classId = Some ''c1'', a_checkInTime = Some 5000,
      a_checkInLocation = None, a_checkOutTime = None, a_status = status, a_distance = None,
      a_isGpsVerified = Some (status = ''verified''), a_deviceInfo = None,
      a_additional = Some Map.empty, a_lastUpdated = Some 5000,
      a_manuallyUpdated = None, a_manuallyUpdatedBy = None, a_manuallyCreated = Some True,
      a_manuallyCreatedBy = Some ''t1'', a_verificationResponseTime = None\<rparr>"

section \<open>Properties of the geofence\<close>

lemma calculateDistance_same:
  "latitude p = latitude q \<Longrightarrow> longitude p = longitude q \<Longrightarrow> calculateDistance p q = 0"
  by (simp add: calculateDistance_def atan2_def)

lemma calculateDistance_antipode:
  "calculateDistance \<lparr>latitude = 0, longitude = 0\<rparr> \<lparr>latitude = 0, longitude = 180\<rparr> = 6371000 * pi"
  by (simp add: calculateDistance_def atan2_def)

lemma antipode_outside_radius: "\<not> 6371000 * pi \<le> (50::real)"
  using pi_ge_two by simp

section \<open>Properties of the session lifecycle\<close>

text \<open>
  Claim C5 (ended is terminal).  For a session whose status is \<open>ended\<close>,
  \<open>startAttendanceSession\<close> called by the owning teacher fails with the message
  \<open>Cannot restart an ended session\<close> (the program's invalid state transition) and leaves
  the whole store, hence the session with its status, start time and end time, as it was.
  On a session that is already \<open>active\<close> the call succeeds and changes nothing.
\<close>

theorem startAttendanceSession_ended_terminal:
  assumes "sessionId \<noteq> []" and "teacherId \<noteq> []"
    and "map_of (sessions st) sessionId = Some s" and "s_teacherId s = teacherId"
  shows "(s_status s = ''ended'' \<longrightarrow>
            startAttendanceSession st now sessionId teacherId =
              (Inl ''Cannot restart an ended session'', st)) \<and>
         (s_status s = ''active'' \<longrightarrow>
            startAttendanceSession st now sessionId teacherId =
              (Inr ''Session is already active'', st))"
  using assms by (simp add: startAttendanceSession_def)

theorem startAttendanceSession_ended_terminal_witness:
  "startAttendanceSession (ex_store [(''s1'', ex_session ''s1'' ''ended'' (Some 2000))] Map.empty)
     3000 ''s1'' ''t1'' =
     (Inl ''Cannot restart an ended session'',
      ex_store [(''s1'', ex_session ''s1'' ''ended'' (Some 2000))] Map.empty) \<and>
   startAttendanceSession (ex_store [(''s1'', ex_session ''s1'' ''active'' None)] Map.empty)
     3000 ''s1'' ''t1'' =
     (Inr ''Session is already active'',
      ex_store [(''s1'', ex_session ''s1'' ''active'' None)] Map.empty)"
  using startAttendanceSession_ended_terminal
          [of "''s1''" "''t1''"
              "ex_store [(''s1'', ex_session ''s1'' ''ended'' (Some 2000))] Map.empty"
              "ex_session ''s1'' ''ended'' (Some 2000)" 3000]
        startAttendanceSession_ended_terminal
          [of "''s1''" "''t1''"
              "ex_store [(''s1'', ex_session ''s1'' ''active'' None)] Map.empty"
              "ex_session ''s1'' ''active'' None" 3000]
  by (simp add: ex_store_def ex_session_def)

subsection \<open>Creating a session\<close>

lemma doc_update_map:
  "doc_update xs k f = map (\<lambda>(k', v). if k' = k then (k', f v) else (k', v)) xs"
  by (induction xs) auto

lemma doc_set_fresh: "k \<notin> fst ` set xs \<Longrightarrow> doc_set xs k v = xs @ [(k, v)]"
  by (induction xs) auto

lemma fixSessions_map:
  "fixSessions now refs ss =
     map (\<lambda>(k, s). if k \<in> set refs then (k, s\<lparr>s_status := ''ended'', s_lastUpdated := Some now\<rparr>)
                     else (k, s)) ss"
proof (induction refs arbitrary: ss)
  case Nil
  show ?case by (simp add: fixSessions_def)
next
  case (Cons r rs)
  have "fixSessions now (r # rs) ss =
          fixSessions now rs
            (doc_update ss r (\<lambda>s. s\<lparr>s_status := ''ended'', s_lastUpdated := Some now\<rparr>))"
    by (simp add: fixSessions_def)
  also have "\<dots> = map (\<lambda>(k, s). if k \<in> set rs
                        then (k, s\<lparr>s_status := ''ended'', s_lastUpdated := Some now\<rparr>)
                        else (k, s))
                  (doc_update ss r (\<lambda>s. s\<lparr>s_status := ''ended'', s_lastUpdated := Some now\<rparr>))"
    by (rule Cons.IH)
  also have "\<dots> = map (\<lambda>(k, s). if k \<in> set (r # rs)
                        then (k, s\<lparr>s_status := ''ended'', s_lastUpdated := Some now\<rparr>)
                        else (k, s)) ss"
    by (auto simp: doc_update_map)
  finally show ?case .
qed

lemma fixSessions_keys: "map fst (fixSessions now refs ss) = map fst ss"
  by (simp add: fixSessions_map case_prod_unfold comp_def if_distrib)

lemma hasActiveSession_iff:
  "hasActiveSession (activeSessionsSnapshot st c) \<longleftrightarrow>
     (\<exists>(ref, s) \<in> set (sessions st).
        s_classId s = c \<and> s_status s = ''active'' \<and> s_endTime s = None)"
  by (auto simp: hasActiveSession_def activeSessionsSnapshot_def list_ex_iff)

lemma sessionsToFix_mem:
  assumes "distinct (map fst (sessions st))" and "(k, s) \<in> set (sessions st)"
    and "\<not> hasActiveSession (activeSessionsSnapshot st c)"
  shows "k \<in> set (sessionsToFix (activeSessionsSnapshot st c)) \<longleftrightarrow>
           s_classId s = c \<and> s_status s = ''active''"
proof
  assume "k \<in> set (sessionsToFix (activeSessionsSnapshot st c))"
  then obtain s' where "(k, s') \<in> set (sessions st)" and "s_classId s' = c \<and> s_status s' = ''active''"
    by (auto simp: sessionsToFix_def activeSessionsSnapshot_def)
  moreover have "s' = s"
    using assms(1,2) \<open>(k, s') \<in> set (sessions st)\<close> by (meson eq_key_imp_eq_value)
  ultimately show "s_classId s = c \<and> s_status s = ''active''" by simp
next
  assume a: "s_classId s = c \<and> s_status s = ''active''"
  with assms(2,3) have "s_endTime s \<noteq> None"
    by (auto simp: hasActiveSession_iff)
  with a assms(2) show "k \<in> set (sessionsToFix (activeSessionsSnapshot st c))"
    by (force simp: sessionsToFix_def activeSessionsSnapshot_def)
qed

lemma fixSessions_stale:
  assumes "distinct (map fst (sessions st))"
    and "\<not> hasActiveSession (activeSessionsSnapshot st c)"
  shows "fixSessions now (sessionsToFix (activeSessionsSnapshot st c)) (sessions st) =
           map (\<lambda>(ref, s). if s_classId s = c \<and> s_status s = ''active''
                             then (ref, s\<lparr>s_status := ''ended'', s_lastUpdated := Some now\<rparr>)
                             else (ref, s)) (sessions st)"
  unfolding fixSessions_map
  by (rule map_cong) (auto simp: sessionsToFix_mem [OF assms(1) _ assms(2)])

text \<open>
  Claim C3 as stated (a session marked \<open>active\<close> whose end time is set is first
  corrected to \<open>ended\<close>, and then the call fails if a session is truly active) does not
  hold: when the class has a truly active session the call fails before any repair, and a
  stale session of the class stays \<open>active\<close>.
\<close>

theorem createAttendanceSession_stale_left_on_conflict:
  "fst (createAttendanceSession
     (ex_store [(''s1'', ex_session ''s1'' ''active'' None),
                (''s2'', ex_session ''s2'' ''active'' (Some 2000))] Map.empty)
     5000 ''s9'' ''t1'' (Some (ex_sessionData 50))) =
     Inl ''There is already an active session for this class'' \<and>
   map_of (sessions (snd (createAttendanceSession
        (ex_store [(''s1'', ex_session ''s1'' ''active'' None),
                   (''s2'', ex_session ''s2'' ''active'' (Some 2000))] Map.empty)
        5000 ''s9'' ''t1'' (Some (ex_sessionData 50))))) ''s2'' =
     Some (ex_session ''s2'' ''active'' (Some 2000)) \<and>
   s_status (ex_session ''s2'' ''active'' (Some 2000)) = ''active'' \<and>
   s_endTime (ex_session ''s2'' ''active'' (Some 2000)) = Some 2000"
  by (simp add: createAttendanceSession_def ex_store_def ex_session_def ex_sessionData_def
      ex_location_def numericLocation_def ex_class_def isTeacherAuthorized_def
      activeSessionsSnapshot_def hasActiveSession_def)

text \<open>
  Claim C3, amended.  For a call of \<open>createAttendanceSession\<close> with well-formed input by
  a teacher authorised for the class: the call fails with \<open>There is already an active
  session for this class\<close> (the program's conflict) if and only if some session of the
  class is truly active (status \<open>active\<close>, no end time), and then it changes nothing,
  stale sessions included.  Otherwise (document ids being unique, the new id fresh and the
  location on the globe) every session of the class that is marked \<open>active\<close>, all of
  which have their end time set, is corrected to \<open>ended\<close>, and a new session of the
  class is stored with status \<open>active\<close> and no end time.
\<close>

theorem createAttendanceSession_single_active:
  assumes "teacherId \<noteq> []" and "sd_classId sd \<noteq> []"
    and "numericLocation (sd_location sd) = Some (la, lo)"
    and "sd_radius sd = Some radius" and "radius \<noteq> 0"
    and "classes st (sd_classId sd) = Some classData"
    and "isTeacherAuthorized teacherId classData"
  shows "(fst (createAttendanceSession st now newId teacherId (Some sd)) =
            Inl ''There is already an active session for this class'' \<longleftrightarrow>
          (\<exists>(ref, s) \<in> set (sessions st).
             s_classId s = sd_classId sd \<and> s_status s = ''active'' \<and> s_endTime s = None)) \<and>
         ((\<exists>(ref, s) \<in> set (sessions st).
             s_classId s = sd_classId sd \<and> s_status s = ''active'' \<and> s_endTime s = None) \<longrightarrow>
          snd (createAttendanceSession st now newId teacherId (Some sd)) = st) \<and>
         (\<not> (\<exists>(ref, s) \<in> set (sessions st).
             s_classId s = sd_classId sd \<and> s_status s = ''active'' \<and> s_endTime s = None) \<and>
          distinct (map fst (sessions st)) \<and> newId \<notin> fst ` set (sessions st) \<and>
          - 90 \<le> la \<and> la \<le> 90 \<and> - 180 \<le> lo \<and> lo \<le> 180 \<longrightarrow>
          (\<exists>new. createAttendanceSession st now newId teacherId (Some sd) =
                   (Inr new,
                    st\<lparr>sessions :=
                         map (\<lambda>(ref, s). if s_classId s = sd_classId sd \<and> s_status s = ''active''
                               then (ref, s\<lparr>s_status := ''ended'', s_lastUpdated := Some now\<rparr>)
                               else (ref, s)) (sessions st) @ [(newId, new)]\<rparr>) \<and>
                 s_classId new = sd_classId sd \<and> s_teacherId new = teacherId \<and>
                 s_status new = ''active'' \<and> s_endTime new = None))"
proof (intro conjI impI)
  show "(fst (createAttendanceSession st now newId teacherId (Some sd)) =
            Inl ''There is already an active session for this class'') =
          (\<exists>(ref, s) \<in> set (sessions st).
             s_classId s = sd_classId sd \<and> s_status s = ''active'' \<and> s_endTime s = None)"
    using assms
    by (simp add: createAttendanceSession_def hasActiveSession_iff GeoPoint_def Let_def
        del: Bex_def split: sum.splits)
next
  assume "\<exists>(ref, s) \<in> set (sessions st).
             s_classId s = sd_classId sd \<and> s_status s = ''active'' \<and> s_endTime s = None"
  then have "hasActiveSession (activeSessionsSnapshot st (sd_classId sd))"
    by (simp only: hasActiveSession_iff)
  with assms show "snd (createAttendanceSession st now newId teacherId (Some sd)) = st"
    by (simp add: createAttendanceSession_def)
next
  assume a: "\<not> (\<exists>(ref, s) \<in> set (sessions st).
             s_classId s = sd_classId sd \<and> s_status s = ''active'' \<and> s_endTime s = None) \<and>
          distinct (map fst (sessions st)) \<and> newId \<notin> fst ` set (sessions st) \<and>
          - 90 \<le> la \<and> la \<le> 90 \<and> - 180 \<le> lo \<and> lo \<le> 180"
  then have none: "\<not> hasActiveSession (activeSessionsSnapshot st (sd_classId sd))"
    by (simp only: hasActiveSession_iff simp_thms)
  from a have d: "distinct (map fst (sessions st))" by simp
  have "newId \<notin> fst ` set (fixSessions now
                  (sessionsToFix (activeSessionsSnapshot st (sd_classId sd))) (sessions st))"
    using a fixSessions_keys [of now "sessionsToFix (activeSessionsSnapshot st (sd_classId sd))" "sessions st"]
    by (metis list.set_map)
  then have fresh: "newId \<notin> fst ` set
      (map (\<lambda>(ref, s). if s_classId s = sd_classId sd \<and> s_status s = ''active''
              then (ref, s\<lparr>s_status := ''ended'', s_lastUpdated := Some now\<rparr>)
              else (ref, s)) (sessions st))"
    unfolding fixSessions_stale [OF d none] .
  have gp: "GeoPoint la lo = Inr \<lparr>latitude = la, longitude = lo\<rparr>"
    using a by (simp add: GeoPoint_def)
  show "\<exists>new. createAttendanceSession st now newId teacherId (Some sd) =
                   (Inr new,
                    st\<lparr>sessions :=
                         map (\<lambda>(ref, s). if s_classId s = sd_classId sd \<and> s_status s = ''active''
                               then (ref, s\<lparr>s_status := ''ended'', s_lastUpdated := Some now\<rparr>)
                               else (ref, s)) (sessions st) @ [(newId, new)]\<rparr>) \<and>
                 s_classId new = sd_classId sd \<and> s_teacherId new = teacherId \<and>
                 s_status new = ''active'' \<and> s_endTime new = None"
    using assms none gp
    by (simp add: createAttendanceSession_def Let_def doc_set_fresh [OF fresh]
        fixSessions_stale [OF d none])
qed

theorem createAttendanceSession_single_active_witness:
  "createAttendanceSession
     (ex_store [(''s1'', ex_session ''s1'' ''active'' None)] Map.empty)
     5000 ''s9'' ''t1'' (Some (ex_sessionData 50)) =
     (Inl ''There is already an active session for this class'',
      ex_store [(''s1'', ex_session ''s1'' ''active'' None)] Map.empty) \<and>
   map (\<lambda>(ref, s). (ref, s_status s, s_endTime s))
     (sessions (snd (createAttendanceSession
        (ex_store [(''s2'', ex_session ''s2'' ''active'' (Some 2000))] Map.empty)
        5000 ''s9'' ''t1'' (Some (ex_sessionData 50))))) =
     [(''s2'', ''ended'', Some 2000), (''s9'', ''active'', None)]"
proof -
  let ?S1 = "ex_store [(''s1'', ex_session ''s1'' ''active'' None)] Map.empty"
  let ?S2 = "ex_store [(''s2'', ex_session ''s2'' ''active'' (Some 2000))] Map.empty"
  have sd: "''t1'' \<noteq> []" "sd_classId (ex_sessionData 50) \<noteq> []"
    "numericLocation (sd_location (ex_sessionData 50)) = Some (0, 0)"
    "sd_radius (ex_sessionData 50) = Some 50" "(50::real) \<noteq> 0"
    "isTeacherAuthorized ''t1'' ex_class"
    by (simp_all add: ex_sessionData_def ex_location_def numericLocation_def
        isTeacherAuthorized_def ex_class_def)
  have c1: "classes ?S1 (sd_classId (ex_sessionData 50)) = Some ex_class"
    and c2: "classes ?S2 (sd_classId (ex_sessionData 50)) = Some ex_class"
    by (simp_all add: ex_store_def ex_sessionData_def)
  from createAttendanceSession_single_active [OF sd(1-5) c1 sd(6), of 5000 "''s9''"]
  have "createAttendanceSession ?S1 5000 ''s9'' ''t1'' (Some (ex_sessionData 50)) =
          (Inl ''There is already an active session for this class'', ?S1)"
    by (simp add: ex_store_def ex_session_def ex_sessionData_def prod_eq_iff)
  moreover
  from createAttendanceSession_single_active [OF sd(1-5) c2 sd(6), of 5000 "''s9''"]
  have "map (\<lambda>(ref, s). (ref, s_status s, s_endTime s))
     (sessions (snd (createAttendanceSession ?S2 5000 ''s9'' ''t1'' (Some (ex_sessionData 50))))) =
     [(''s2'', ''ended'', Some 2000), (''s9'', ''active'', None)]"
    by (auto simp: ex_store_def ex_session_def ex_sessionData_def)
  ultimately show ?thesis by simp
qed

text \<open>
  Claim C8 asks that creation fails unless the radius is strictly positive.  The test of
  \<open>createAttendanceSession\<close>, \<open>!radius || typeof radius !== 'number'\<close>, rejects a
  missing, non-numeric or zero radius but lets a negative one through: with radius \<open>-5\<close>
  and otherwise valid input the session is created and stored with that radius, while
  radius \<open>0\<close> is rejected.  The sibling \<open>updateSessionLocation\<close>, whose test is
  \<open>typeof radius !== 'number' || radius <= 0\<close>, rejects radius \<open>-5\<close>.
\<close>

theorem createAttendanceSession_negative_radius:
  "\<not> isl (fst (createAttendanceSession (ex_store [] Map.empty)
        5000 ''s9'' ''t1'' (Some (ex_sessionData (- 5))))) \<and>
   map_option s_radius
     (map_of (sessions (snd (createAttendanceSession (ex_store [] Map.empty)
        5000 ''s9'' ''t1'' (Some (ex_sessionData (- 5)))))) ''s9'') = Some (- 5) \<and>
   map_option s_status
     (map_of (sessions (snd (createAttendanceSession (ex_store [] Map.empty)
        5000 ''s9'' ''t1'' (Some (ex_sessionData (- 5)))))) ''s9'') = Some ''active'' \<and>
   fst (createAttendanceSession (ex_store [] Map.empty)
        5000 ''s9'' ''t1'' (Some (ex_sessionData 0))) = Inl ''Valid radius is required'' \<and>
   updateSessionLocation (ex_store [(''s1'', ex_session ''s1'' ''active'' None)] Map.empty)
        5000 ''s1'' ''t1'' (ex_location 0) (Some (- 5)) Map.empty =
     (Inl ''Valid radius is required'',
      ex_store [(''s1'', ex_session ''s1'' ''active'' None)] Map.empty)"
  by (simp add: createAttendanceSession_def updateSessionLocation_def ex_store_def ex_sessionData_def
      ex_location_def numericLocation_def ex_class_def isTeacherAuthorized_def
      activeSessionsSnapshot_def hasActiveSession_def sessionsToFix_def fixSessions_def
      GeoPoint_def Let_def)

section \<open>Properties of check-in\<close>

text \<open>
  Claim C1 as stated (a second check-in for a pair that has a record always fails,
  whatever the record's status) does not hold of the server-side \<open>checkInStudent\<close>:
  with a record of status \<open>failed_location\<close> in the store, the student checks in again
  and is verified.
\<close>

theorem checkInStudent_again_after_failed_location:
  "attendance (ex_store [(''s1'', ex_session ''s1'' ''active'' None)]
       [(''s1'', ''u1'') \<mapsto> ex_attendance ''failed_location'' None]) (''s1'', ''u1'') =
     Some (ex_attendance ''failed_location'' None) \<and>
   fst (checkInStudent (ex_store [(''s1'', ex_session ''s1'' ''active'' None)]
       [(''s1'', ''u1'') \<mapsto> ex_attendance ''failed_location'' None]) 5000 ''s1'' ''u1''
       \<lparr>latitude = 0, longitude = 0\<rparr>) =
     Inr \<lparr>cs_status = ''verified'', cs_distance = 0, cs_allowedRadius = 50\<rparr>"
  by (simp add: checkInStudent_def ex_store_def ex_session_def ex_attendance_def GeoPoint_def
      calculateDistance_same Let_def)

text \<open>
  Claim C1, amended.  While a record for (session, student) exists,
  \<open>checkInToSession\<close> never succeeds and writes nothing, whatever the location and the
  record's status; when the identifiers and the location are well-formed, the session is
  active and the student enrolled, its error is \<open>You have already checked in to this
  session\<close> (the program's conflict).  The server-side \<open>checkInStudent\<close>, on an active
  session and an enrolled student, fails with \<open>Already checked in\<close> when the record's
  status is \<open>checked_in\<close> or \<open>verified\<close>; for every other status and a location on
  the globe it checks the student in again and replaces the record by one with the new
  check-in time.
\<close>

theorem checkIn_existing_record_rejected:
  assumes "attendance st (sessionId, studentId) = Some a"
  shows "(\<exists>msg. checkInToSession st now dev sessionId studentId locationData additionalData =
            (Inl msg, st)) \<and>
         (sessionId \<noteq> [] \<and> studentId \<noteq> [] \<and> numericLocation locationData \<noteq> None \<and>
          map_of (sessions st) sessionId = Some sessionData \<and>
          s_status sessionData = ''active'' \<and>
          s_classId sessionData \<in> set (userClasses st studentId) \<longrightarrow>
            checkInToSession st now dev sessionId studentId locationData additionalData =
              (Inl ''You have already checked in to this session'', st)) \<and>
         (map_of (sessions st) sessionId = Some sessionData \<and>
          s_status sessionData = ''active'' \<and>
          studentId \<in> set (classStudents st (s_classId sessionData)) \<and>
          (a_status a = ''checked_in'' \<or> a_status a = ''verified'') \<longrightarrow>
            checkInStudent st now sessionId studentId location =
              (Inl ''Already checked in'', st)) \<and>
         (map_of (sessions st) sessionId = Some sessionData \<and>
          s_status sessionData = ''active'' \<and>
          studentId \<in> set (classStudents st (s_classId sessionData)) \<and>
          a_status a \<noteq> ''checked_in'' \<and> a_status a \<noteq> ''verified'' \<and>
          - 90 \<le> latitude location \<and> latitude location \<le> 90 \<and>
          - 180 \<le> longitude location \<and> longitude location \<le> 180 \<longrightarrow>
            \<not> isl (fst (checkInStudent st now sessionId studentId location)) \<and>
            map_option a_checkInTime
              (attendance (snd (checkInStudent st now sessionId studentId location))
                 (sessionId, studentId)) = Some (Some now))"
  using assms
  by (auto simp: checkInToSession_def checkInStudent_def GeoPoint_def Let_def
           split: option.splits)

theorem checkIn_existing_record_rejected_witness:
  "checkInToSession
     (ex_store [(''s1'', ex_session ''s1'' ''active'' None)]
        [(''s1'', ''u1'') \<mapsto> ex_attendance ''verified'' None])
     5000 (''agent'', ''platform'') ''s1'' ''u1'' (ex_location 180) Map.empty =
     (Inl ''You have already checked in to this session'',
      ex_store [(''s1'', ex_session ''s1'' ''active'' None)]
        [(''s1'', ''u1'') \<mapsto> ex_attendance ''verified'' None]) \<and>
   checkInStudent
     (ex_store [(''s1'', ex_session ''s1'' ''active'' None)]
        [(''s1'', ''u1'') \<mapsto> ex_attendance ''verified'' None])
     5000 ''s1'' ''u1'' \<lparr>latitude = 0, longitude = 180\<rparr> =
     (Inl ''Already checked in'',
      ex_store [(''s1'', ex_session ''s1'' ''active'' None)]
        [(''s1'', ''u1'') \<mapsto> ex_attendance ''verified'' None]) \<and>
   \<not> isl (fst (checkInStudent
     (ex_store [(''s1'', ex_session ''s1'' ''active'' None)]
        [(''s1'', ''u1'') \<mapsto> ex_attendance ''failed_location'' None])
     5000 ''s1'' ''u1'' \<lparr>latitude = 0, longitude = 180\<rparr>)) \<and>
   map_option a_checkInTime
     (attendance (snd (checkInStudent
        (ex_store [(''s1'', ex_session ''s1'' ''active'' None)]
           [(''s1'', ''u1'') \<mapsto> ex_attendance ''failed_location'' None])
        5000 ''s1'' ''u1'' \<lparr>latitude = 0, longitude = 180\<rparr>)) (''s1'', ''u1'')) =
     Some (Some 5000)"
  using checkIn_existing_record_rejected
          [of "ex_store [(''s1'', ex_session ''s1'' ''active'' None)]
                 [(''s1'', ''u1'') \<mapsto> ex_attendance ''verified'' None]"
              "''s1''" "''u1''" "ex_attendance ''verified'' None" 5000 "(''agent'', ''platform'')"
              "ex_location 180" Map.empty "ex_session ''s1'' ''active'' None"
              "\<lparr>latitude = 0, longitude = 180\<rparr>"]
        checkIn_existing_record_rejected
          [of "ex_store [(''s1'', ex_session ''s1'' ''active'' None)]
                 [(''s1'', ''u1'') \<mapsto> ex_attendance ''failed_location'' None]"
              "''s1''" "''u1''" "ex_attendance ''failed_location'' None" 5000
              "(''agent'', ''platform'')"
              "ex_location 180" Map.empty "ex_session ''s1'' ''active'' None"
              "\<lparr>latitude = 0, longitude = 180\<rparr>"]
  by (simp add: ex_store_def ex_session_def ex_attendance_def ex_location_def numericLocation_def)

text \<open>
  Claim C2.  A successful \<open>checkInToSession\<close> happens on an active session, for an
  enrolled student without a record, and stores the record it returns.  That record has
  status \<open>verified\<close> exactly when the haversine distance from the session's centre to
  the check-in location is at most the session's radius (equality included) and status
  \<open>failed_location\<close> exactly when it is not; \<open>isGpsVerified\<close> is that same test, and
  the distance computed is stored on the record.
\<close>

theorem checkIn_status_by_geofence:
  assumes "checkInToSession st now dev sessionId studentId locationData additionalData = (Inr r, st')"
    and "map_of (sessions st) sessionId = Some sessionData"
    and "numericLocation locationData = Some (la, lo)"
  shows "s_status sessionData = ''active'' \<and>
         s_classId sessionData \<in> set (userClasses st studentId) \<and>
         attendance st (sessionId, studentId) = None \<and>
         attendance st' (sessionId, studentId) = Some (ci_record r) \<and>
         (a_status (ci_record r) = ''verified'' \<longleftrightarrow>
            calculateDistance (s_location sessionData) \<lparr>latitude = la, longitude = lo\<rparr>
              \<le> s_radius sessionData) \<and>
         (a_status (ci_record r) = ''failed_location'' \<longleftrightarrow>
            \<not> calculateDistance (s_location sessionData) \<lparr>latitude = la, longitude = lo\<rparr>
              \<le> s_radius sessionData) \<and>
         a_isGpsVerified (ci_record r) =
            Some (calculateDistance (s_location sessionData) \<lparr>latitude = la, longitude = lo\<rparr>
                    \<le> s_radius sessionData) \<and>
         a_distance (ci_record r) =
            Some (calculateDistance (s_location sessionData) \<lparr>latitude = la, longitude = lo\<rparr>)"
  using assms
  by (auto simp: checkInToSession_def validateLocationForSession_def Let_def
           split: option.splits if_splits sum.splits)

theorem checkIn_status_by_geofence_witness:
  "checkInToSession (ex_store [(''s1'', ex_session ''s1'' ''active'' None)] Map.empty)
     5000 (''agent'', ''platform'') ''s1'' ''u1'' (ex_location 0) Map.empty =
     (Inr \<lparr>ci_record = ex_checkin 0 0 True, ci_isWithinRadius = True,
           ci_message = ''Check-in successful! Your attendance has been verified.''\<rparr>,
      ex_store [(''s1'', ex_session ''s1'' ''active'' None)]
        [(''s1'', ''u1'') \<mapsto> ex_checkin 0 0 True]) \<and>
   a_status (ex_checkin 0 0 True) = ''verified'' \<and>
   a_isGpsVerified (ex_checkin 0 0 True) = Some True \<and>
   a_distance (ex_checkin 0 0 True) = Some 0 \<and>
   checkInToSession (ex_store [(''s1'', ex_session ''s1'' ''active'' None)] Map.empty)
     5000 (''agent'', ''platform'') ''s1'' ''u1'' (ex_location 180) Map.empty =
     (Inr \<lparr>ci_record = ex_checkin 180 (6371000 * pi) False, ci_isWithinRadius = False,
           ci_message = ''Check-in recorded, but you are outside the allowed radius.''\<rparr>,
      ex_store [(''s1'', ex_session ''s1'' ''active'' None)]
        [(''s1'', ''u1'') \<mapsto> ex_checkin 180 (6371000 * pi) False]) \<and>
   a_status (ex_checkin 180 (6371000 * pi) False) = ''failed_location'' \<and>
   a_isGpsVerified (ex_checkin 180 (6371000 * pi) False) = Some False \<and>
   a_distance (ex_checkin 180 (6371000 * pi) False) = Some (6371000 * pi)"
proof -
  let ?S = "ex_store [(''s1'', ex_session ''s1'' ''active'' None)] Map.empty"
  have s: "map_of (sessions ?S) ''s1'' = Some (ex_session ''s1'' ''active'' None)"
    by (simp add: ex_store_def)
  have near: "checkInToSession ?S 5000 (''agent'', ''platform'') ''s1'' ''u1'' (ex_location 0) Map.empty =
     (Inr \<lparr>ci_record = ex_checkin 0 0 True, ci_isWithinRadius = True,
           ci_message = ''Check-in successful! Your attendance has been verified.''\<rparr>,
      ex_store [(''s1'', ex_session ''s1'' ''active'' None)]
        [(''s1'', ''u1'') \<mapsto> ex_checkin 0 0 True])"
    by (simp add: checkInToSession_def validateLocationForSession_def numericLocation_def
        ex_location_def ex_store_def ex_session_def ex_checkin_def GeoPoint_def
        calculateDistance_same Let_def)
  have far: "checkInToSession ?S 5000 (''agent'', ''platform'') ''s1'' ''u1'' (ex_location 180) Map.empty =
     (Inr \<lparr>ci_record = ex_checkin 180 (6371000 * pi) False, ci_isWithinRadius = False,
           ci_message = ''Check-in recorded, but you are outside the allowed radius.''\<rparr>,
      ex_store [(''s1'', ex_session ''s1'' ''active'' None)]
        [(''s1'', ''u1'') \<mapsto> ex_checkin 180 (6371000 * pi) False])"
    using antipode_outside_radius
    by (simp add: checkInToSession_def validateLocationForSession_def numericLocation_def
        ex_location_def ex_store_def ex_session_def ex_checkin_def GeoPoint_def
        calculateDistance_antipode Let_def)
  have l0: "numericLocation (ex_location 0) = Some (0, 0)"
    and l180: "numericLocation (ex_location 180) = Some (0, 180)"
    by (simp_all add: numericLocation_def ex_location_def)
  from checkIn_status_by_geofence [OF near s l0] checkIn_status_by_geofence [OF far s l180]
    near far
  show ?thesis by (simp add: ex_checkin_def)
qed

section \<open>Properties of check-out\<close>


text \<open>
  Claim C4 as stated (a further check-out on a record whose check-out time is set
  succeeds without error) does not hold once the session is no longer active: the session
  is tested first, and the call fails with \<open>Cannot check out from an inactive session\<close>.
\<close>

theorem checkOut_after_session_ended:
  "map_option a_checkOutTime
     (attendance (ex_store [(''s1'', ex_session ''s1'' ''ended'' (Some 4000))]
        [(''s1'', ''u1'') \<mapsto> ex_attendance ''verified'' (Some 3000)]) (''s1'', ''u1'')) =
     Some (Some 3000) \<and>
   checkOutFromSession
     (ex_store [(''s1'', ex_session ''s1'' ''ended'' (Some 4000))]
        [(''s1'', ''u1'') \<mapsto> ex_attendance ''verified'' (Some 3000)])
     9000 9000 ''s1'' ''u1'' Map.empty =
     (Inl ''Cannot check out from an inactive session'',
      ex_store [(''s1'', ex_session ''s1'' ''ended'' (Some 4000))]
        [(''s1'', ''u1'') \<mapsto> ex_attendance ''verified'' (Some 3000)])"
  by (simp add: checkOutFromSession_def ex_store_def ex_session_def ex_attendance_def)

text \<open>
  Claim C4, amended.  While the session is active, a check-out for a (session, student)
  whose record already has its check-out time set succeeds as a no-op: it writes nothing,
  so the check-out time and every other field of the record are unchanged, and it returns
  the existing record.  When the session is not active, the same call fails with
  \<open>Cannot check out from an inactive session\<close> and writes nothing.
\<close>

theorem checkOut_idempotent:
  assumes "sessionId \<noteq> []" and "studentId \<noteq> []"
    and "map_of (sessions st) sessionId = Some sessionData"
    and "attendance st (sessionId, studentId) = Some a"
    and "a_checkOutTime a = Some t"
  shows "(s_status sessionData = ''active'' \<longrightarrow>
            checkOutFromSession st now clientNow sessionId studentId additionalData =
              (Inr \<lparr>co_message = ''You have already checked out from this session'',
                    co_data = Existing a\<rparr>, st)) \<and>
         (s_status sessionData \<noteq> ''active'' \<longrightarrow>
            checkOutFromSession st now clientNow sessionId studentId additionalData =
              (Inl ''Cannot check out from an inactive session'', st))"
  using assms by (simp add: checkOutFromSession_def)

theorem checkOut_idempotent_witness:
  "checkOutFromSession
     (ex_store [(''s1'', ex_session ''s1'' ''active'' None)]
        [(''s1'', ''u1'') \<mapsto> ex_attendance ''verified'' (Some 3000)])
     9000 9000 ''s1'' ''u1'' Map.empty =
     (Inr \<lparr>co_message = ''You have already checked out from this session'',
           co_data = Existing (ex_attendance ''verified'' (Some 3000))\<rparr>,
      ex_store [(''s1'', ex_session ''s1'' ''active'' None)]
        [(''s1'', ''u1'') \<mapsto> ex_attendance ''verified'' (Some 3000)]) \<and>
   checkOutFromSession
     (ex_store [(''s1'', ex_session ''s1'' ''scheduled'' None)]
        [(''s1'', ''u1'') \<mapsto> ex_attendance ''verified'' (Some 3000)])
     9000 9000 ''s1'' ''u1'' Map.empty =
     (Inl ''Cannot check out from an inactive session'',
      ex_store [(''s1'', ex_session ''s1'' ''scheduled'' None)]
        [(''s1'', ''u1'') \<mapsto> ex_attendance ''verified'' (Some 3000)])"
  using checkOut_idempotent
          [of "''s1''" "''u1''"
              "ex_store [(''s1'', ex_session ''s1'' ''active'' None)]
                 [(''s1'', ''u1'') \<mapsto> ex_attendance ''verified'' (Some 3000)]"
              "ex_session ''s1'' ''active'' None" "ex_attendance ''verified'' (Some 3000)" 3000
              9000 9000 Map.empty]
        checkOut_idempotent
          [of "''s1''" "''u1''"
              "ex_store [(''s1'', ex_session ''s1'' ''scheduled'' None)]
                 [(''s1'', ''u1'') \<mapsto> ex_attendance ''verified'' (Some 3000)]"
              "ex_session ''s1'' ''scheduled'' None" "ex_attendance ''verified'' (Some 3000)" 3000
              9000 9000 Map.empty]
  by (simp add: ex_store_def ex_session_def ex_attendance_def)




section \<open>Properties of the verification response\<close>




section \<open>Properties of the manual override\<close>

lemma validStatuses_nonempty: "status \<in> set validStatuses \<Longrightarrow> status \<noteq> []"
  by (auto simp: validStatuses_def)

lemma sheetLine_studentId: "sl_studentId (sheetLine st sessionId studentId) = studentId"
  by (simp add: sheetLine_def Let_def split: option.splits)

lemma sheetLine_absent:
  assumes "attendance st (sessionId, studentId) = None"
  shows "sl_status (sheetLine st sessionId studentId) = ''absent''"
    and "\<not> sl_attended (sheetLine st sessionId studentId)"
    and "sl_checkInTime (sheetLine st sessionId studentId) = None"
    and "sl_checkOutTime (sheetLine st sessionId studentId) = None"
    and "sl_distance (sheetLine st sessionId studentId) = None"
    and "sl_isGpsVerified (sheetLine st sessionId studentId) = None"
  using assms by (simp_all add: sheetLine_def Let_def)

text \<open>
  Claim C7 as stated (every status other than \<open>absent\<close> leaves a record with
  \<open>manuallyUpdated = true\<close> and \<open>manuallyUpdatedBy = teacherId\<close>) does not hold when
  the override creates the record: the new record has neither field.
\<close>

theorem manuallyMarkAttendance_created_not_marked_updated:
  "\<not> isl (fst (manuallyMarkAttendance
       (ex_store [(''s1'', ex_session ''s1'' ''active'' None)] Map.empty)
       5000 ''s1'' ''u1'' ''verified'' ''t1'' Map.empty)) \<and>
   attendance (snd (manuallyMarkAttendance
       (ex_store [(''s1'', ex_session ''s1'' ''active'' None)] Map.empty)
       5000 ''s1'' ''u1'' ''verified'' ''t1'' Map.empty)) (''s1'', ''u1'') =
     Some (ex_manual ''verified'') \<and>
   a_status (ex_manual ''verified'') = ''verified'' \<and>
   a_manuallyUpdated (ex_manual ''verified'') = None \<and>
   a_manuallyUpdatedBy (ex_manual ''verified'') = None"
  by (simp add: manuallyMarkAttendance_def validStatuses_def ex_store_def ex_session_def
      ex_manual_def Let_def)

text \<open>
  Claim C7, amended.  A manual override by the owning teacher, on an enrolled student
  and with a valid status, succeeds.  With status \<open>absent\<close> the record is deleted if
  there is one (and nothing else happens if there is none), and the attendance sheet of
  the session then lists the student as \<open>absent\<close>, not attended, with no record fields.
  With any other valid status: an existing record gets that status,
  \<open>manuallyUpdated = true\<close>, \<open>manuallyUpdatedBy = teacherId\<close>, and its extension data
  merged with the data supplied (supplied keys win); a missing record is created with that
  status, \<open>manuallyCreated = true\<close>, \<open>manuallyCreatedBy = teacherId\<close>, the data supplied
  as extension data, and \<open>isGpsVerified\<close> true exactly for status \<open>verified\<close>.
\<close>

theorem manuallyMarkAttendance_override:
  assumes "sessionId \<noteq> []" and "studentId \<noteq> []" and "teacherId \<noteq> []"
    and "status \<in> set validStatuses"
    and "map_of (sessions st) sessionId = Some sessionData"
    and "s_teacherId sessionData = teacherId"
    and "studentId \<in> set (classStudents st (s_classId sessionData))"
  shows "\<not> isl (fst (manuallyMarkAttendance st now sessionId studentId status teacherId additionalData)) \<and>
    (status = ''absent'' \<longrightarrow>
       attendance (snd (manuallyMarkAttendance st now sessionId studentId status teacherId additionalData))
         (sessionId, studentId) = None \<and>
       (\<exists>sh. getSessionAttendance
                (snd (manuallyMarkAttendance st now sessionId studentId status teacherId additionalData))
                sessionId teacherId = Inr sh \<and>
             (\<exists>l \<in> set (sh_records sh). sl_studentId l = studentId) \<and>
             (\<forall>l \<in> set (sh_records sh). sl_studentId l = studentId \<longrightarrow>
                sl_status l = ''absent'' \<and> \<not> sl_attended l \<and> sl_checkInTime l = None \<and>
                sl_checkOutTime l = None \<and> sl_distance l = None \<and> sl_isGpsVerified l = None))) \<and>
    (status \<noteq> ''absent'' \<longrightarrow>
       (\<forall>a. attendance st (sessionId, studentId) = Some a \<longrightarrow>
          (\<exists>a'. attendance (snd (manuallyMarkAttendance st now sessionId studentId status teacherId additionalData))
                  (sessionId, studentId) = Some a' \<and>
                a_status a' = status \<and> a_manuallyUpdated a' = Some True \<and>
                a_manuallyUpdatedBy a' = Some teacherId \<and>
                a_additional a' =
                  Some ((case a_additional a of None \<Rightarrow> Map.empty | Some existing \<Rightarrow> existing)
                        ++ additionalData))) \<and>
       (attendance st (sessionId, studentId) = None \<longrightarrow>
          (\<exists>a'. attendance (snd (manuallyMarkAttendance st now sessionId studentId status teacherId additionalData))
                  (sessionId, studentId) = Some a' \<and>
                a_status a' = status \<and> a_manuallyCreated a' = Some True \<and>
                a_manuallyCreatedBy a' = Some teacherId \<and>
                a_additional a' = Some additionalData \<and>
                a_isGpsVerified a' = Some (status = ''verified''))))"
proof -
  note ne = validStatuses_nonempty [OF assms(4)]
  show ?thesis
  proof (intro conjI impI allI)
    show "\<not> isl (fst (manuallyMarkAttendance st now sessionId studentId status teacherId additionalData))"
      using assms ne by (simp add: manuallyMarkAttendance_def Let_def split: option.splits)
  next
    assume "status = ''absent''"
    then show "attendance (snd (manuallyMarkAttendance st now sessionId studentId status teacherId additionalData))
         (sessionId, studentId) = None"
      using assms by (simp add: manuallyMarkAttendance_def Let_def)
  next
    assume "status = ''absent''"
    then show "\<exists>sh. getSessionAttendance
                (snd (manuallyMarkAttendance st now sessionId studentId status teacherId additionalData))
                sessionId teacherId = Inr sh \<and>
             (\<exists>l \<in> set (sh_records sh). sl_studentId l = studentId) \<and>
             (\<forall>l \<in> set (sh_records sh). sl_studentId l = studentId \<longrightarrow>
                sl_status l = ''absent'' \<and> \<not> sl_attended l \<and> sl_checkInTime l = None \<and>
                sl_checkOutTime l = None \<and> sl_distance l = None \<and> sl_isGpsVerified l = None)"
      using assms
      by (auto simp: manuallyMarkAttendance_def getSessionAttendance_def Let_def
          sheetLine_studentId sheetLine_absent)
  next
    fix a
    assume "status \<noteq> ''absent''" and "attendance st (sessionId, studentId) = Some a"
    then show "\<exists>a'. attendance (snd (manuallyMarkAttendance st now sessionId studentId status teacherId additionalData))
                  (sessionId, studentId) = Some a' \<and>
                a_status a' = status \<and> a_manuallyUpdated a' = Some True \<and>
                a_manuallyUpdatedBy a' = Some teacherId \<and>
                a_additional a' =
                  Some ((case a_additional a of None \<Rightarrow> Map.empty | Some existing \<Rightarrow> existing)
                        ++ additionalData)"
      using assms ne
      by (simp add: manuallyMarkAttendance_def Let_def split: option.splits)
  next
    assume "status \<noteq> ''absent''" and "attendance st (sessionId, studentId) = None"
    then show "\<exists>a'. attendance (snd (manuallyMarkAttendance st now sessionId studentId status teacherId additionalData))
                  (sessionId, studentId) = Some a' \<and>
                a_status a' = status \<and> a_manuallyCreated a' = Some True \<and>
                a_manuallyCreatedBy a' = Some teacherId \<and>
                a_additional a' = Some additionalData \<and>
                a_isGpsVerified a' = Some (status = ''verified'')"
      using assms ne
      by (simp add: manuallyMarkAttendance_def Let_def)
  qed
qed

theorem manuallyMarkAttendance_override_witness:
  "attendance (snd (manuallyMarkAttendance
      (ex_store [(''s1'', ex_session ''s1'' ''active'' None)]
         [(''s1'', ''u1'') \<mapsto> ex_attendance ''verified'' None])
      5000 ''s1'' ''u1'' ''absent'' ''t1'' Map.empty)) (''s1'', ''u1'') = None \<and>
   map (\<lambda>l. (sl_studentId l, sl_status l, sl_attended l))
     (sh_records (projr (getSessionAttendance (snd (manuallyMarkAttendance
        (ex_store [(''s1'', ex_session ''s1'' ''active'' None)]
           [(''s1'', ''u1'') \<mapsto> ex_attendance ''verified'' None])
        5000 ''s1'' ''u1'' ''absent'' ''t1'' Map.empty)) ''s1'' ''t1''))) =
     [(''u1'', ''absent'', False)] \<and>
   map_option (\<lambda>a. (a_status a, a_manuallyUpdated a, a_manuallyUpdatedBy a))
     (attendance (snd (manuallyMarkAttendance
        (ex_store [(''s1'', ex_session ''s1'' ''active'' None)]
           [(''s1'', ''u1'') \<mapsto> ex_attendance ''verified'' None])
        5000 ''s1'' ''u1'' ''failed_location'' ''t1'' Map.empty)) (''s1'', ''u1'')) =
     Some (''failed_location'', Some True, Some ''t1'') \<and>
   map_option (\<lambda>a. (a_status a, a_manuallyCreated a, a_manuallyCreatedBy a, a_isGpsVerified a))
     (attendance (snd (manuallyMarkAttendance
        (ex_store [(''s1'', ex_session ''s1'' ''active'' None)] Map.empty)
        5000 ''s1'' ''u1'' ''verified'' ''t1'' Map.empty)) (''s1'', ''u1'')) =
     Some (''verified'', Some True, Some ''t1'', Some True)"
  using manuallyMarkAttendance_override
          [of "''s1''" "''u1''" "''t1''" "''absent''"
              "ex_store [(''s1'', ex_session ''s1'' ''active'' None)]
                 [(''s1'', ''u1'') \<mapsto> ex_attendance ''verified'' None]"
              "ex_session ''s1'' ''active'' None" 5000 Map.empty]
        manuallyMarkAttendance_override
          [of "''s1''" "''u1''" "''t1''" "''failed_location''"
              "ex_store [(''s1'', ex_session ''s1'' ''active'' None)]
                 [(''s1'', ''u1'') \<mapsto> ex_attendance ''verified'' None]"
              "ex_session ''s1'' ''active'' None" 5000 Map.empty]
        manuallyMarkAttendance_override
          [of "''s1''" "''u1''" "''t1''" "''verified''"
              "ex_store [(''s1'', ex_session ''s1'' ''active'' None)] Map.empty"
              "ex_session ''s1'' ''active'' None" 5000 Map.empty]
  by (simp add: manuallyMarkAttendance_def getSessionAttendance_def sheetLine_def orDefault_def
      validStatuses_def ex_store_def ex_session_def ex_attendance_def Let_def)

lemma manuallyMarkAttendance_success:
  assumes "fst (manuallyMarkAttendance st now sessionId studentId status teacherId additionalData) =
             Inr r"
  shows "sessionId \<noteq> [] \<and> studentId \<noteq> [] \<and> status \<noteq> [] \<and> teacherId \<noteq> [] \<and>
         status \<in> set validStatuses \<and>
         (\<exists>sessionData. map_of (sessions st) sessionId = Some sessionData \<and>
            s_teacherId sessionData = teacherId \<and>
            studentId \<in> set (classStudents st (s_classId sessionData)))"
  using assms
  by (auto simp: manuallyMarkAttendance_def split: if_splits option.splits)

lemma checkInToSession_record:
  assumes "checkInToSession st now dev sessionId studentId locationData additionalData = (Inr c, st')"
    and "map_of (sessions st) sessionId = Some sessionData"
  shows "ci_record c =
           \<lparr>a_studentId = Some studentId, a_classId = Some (s_classId sessionData),
            a_checkInTime = Some now, a_checkInLocation = a_checkInLocation (ci_record c),
            a_checkOutTime = None, a_status = a_status (ci_record c),
            a_distance = a_distance (ci_record c),
            a_isGpsVerified = Some (a_status (ci_record c) = ''verified''),
            a_deviceInfo = Some dev, a_additional = Some additionalData,
            a_lastUpdated = Some now, a_manuallyUpdated = None, a_manuallyUpdatedBy = None,
            a_manuallyCreated = None, a_manuallyCreatedBy = None,
            a_verificationResponseTime = None\<rparr> \<and>
         a_checkInLocation (ci_record c) \<noteq> None \<and> a_distance (ci_record c) \<noteq> None"
  using assms
  by (auto simp: checkInToSession_def validateLocationForSession_def Let_def
           split: option.splits if_splits sum.splits)

text \<open>
  Claim C10 as stated ends on the remark that a record created by the teacher differs
  from a real GPS check-in only by the audit fields and the absent location data.  That
  does not hold: a check-in through \<open>checkInToSession\<close> also stores the device
  information, which the teacher's record lacks, so the two records still differ once the
  audit fields and the location data are made equal.
\<close>

theorem manual_record_differs_in_deviceInfo:
  "attendance (snd (manuallyMarkAttendance
      (ex_store [(''s1'', ex_session ''s1'' ''active'' None)] Map.empty)
      5000 ''s1'' ''u1'' ''verified'' ''t1'' Map.empty)) (''s1'', ''u1'') =
     Some (ex_manual ''verified'') \<and>
   attendance (snd (checkInToSession
      (ex_store [(''s1'', ex_session ''s1'' ''active'' None)] Map.empty)
      5000 (''agent'', ''platform'') ''s1'' ''u1'' (ex_location 0) Map.empty)) (''s1'', ''u1'') =
     Some (ex_checkin 0 0 True) \<and>
   (ex_manual ''verified'')
      \<lparr>a_manuallyCreated := None, a_manuallyCreatedBy := None,
       a_checkInLocation := Some \<lparr>latitude = 0, longitude = 0\<rparr>, a_distance := Some 0\<rparr>
     \<noteq> ex_checkin 0 0 True \<and>
   a_deviceInfo (ex_manual ''verified'') = None \<and>
   a_deviceInfo (ex_checkin 0 0 True) = Some (''agent'', ''platform'')"
  by (simp add: manuallyMarkAttendance_def checkInToSession_def validateLocationForSession_def
      numericLocation_def GeoPoint_def calculateDistance_same validStatuses_def
      ex_store_def ex_session_def ex_manual_def ex_checkin_def ex_location_def Let_def)

text \<open>
  Claim C10, amended.  A manual override that succeeds, with a status other than
  \<open>absent\<close> and for a student without a record, stores a record whose check-in time is
  the current time and whose check-out time is null, with \<open>manuallyCreated = true\<close> and
  \<open>manuallyCreatedBy = teacherId\<close>, and without check-in location, distance and device
  information.  Compared with the record a successful \<open>checkInToSession\<close> with the same
  status and extension data would store at that time, which has a location, a distance
  and the device information, it differs in these fields only: the two audit fields, the
  location, the distance and the device information.
\<close>

theorem manuallyMarkAttendance_creates_record:
  assumes "fst (manuallyMarkAttendance st now sessionId studentId status teacherId additionalData) =
             Inr r"
    and "status \<noteq> ''absent''"
    and "attendance st (sessionId, studentId) = None"
  shows "\<exists>sessionData m.
           map_of (sessions st) sessionId = Some sessionData \<and>
           attendance (snd (manuallyMarkAttendance st now sessionId studentId status teacherId additionalData))
             (sessionId, studentId) = Some m \<and>
           m = \<lparr>a_studentId = Some studentId, a_classId = Some (s_classId sessionData),
                 a_checkInTime = Some now, a_checkInLocation = None, a_checkOutTime = None,
                 a_status = status, a_distance = None,
                 a_isGpsVerified = Some (status = ''verified''), a_deviceInfo = None,
                 a_additional = Some additionalData, a_lastUpdated = Some now,
                 a_manuallyUpdated = None, a_manuallyUpdatedBy = None,
                 a_manuallyCreated = Some True, a_manuallyCreatedBy = Some teacherId,
                 a_verificationResponseTime = None\<rparr> \<and>
           (checkInToSession st now dev sessionId studentId locationData additionalData =
              (Inr c, st') \<and> a_status (ci_record c) = status \<longrightarrow>
            a_deviceInfo (ci_record c) = Some dev \<and>
            a_checkInLocation (ci_record c) \<noteq> None \<and> a_distance (ci_record c) \<noteq> None \<and>
            m\<lparr>a_manuallyCreated := None, a_manuallyCreatedBy := None,
              a_checkInLocation := a_checkInLocation (ci_record c),
              a_distance := a_distance (ci_record c),
              a_deviceInfo := a_deviceInfo (ci_record c)\<rparr> = ci_record c)"
proof -
  from manuallyMarkAttendance_success [OF assms(1)]
  obtain sessionData where pre:
    "sessionId \<noteq> []" "studentId \<noteq> []" "status \<noteq> []" "teacherId \<noteq> []"
    "status \<in> set validStatuses" "map_of (sessions st) sessionId = Some sessionData"
    "s_teacherId sessionData = teacherId"
    "studentId \<in> set (classStudents st (s_classId sessionData))"
    by blast
  let ?m = "\<lparr>a_studentId = Some studentId, a_classId = Some (s_classId sessionData),
                 a_checkInTime = Some now, a_checkInLocation = None, a_checkOutTime = None,
                 a_status = status, a_distance = None,
                 a_isGpsVerified = Some (status = ''verified''), a_deviceInfo = None,
                 a_additional = Some additionalData, a_lastUpdated = Some now,
                 a_manuallyUpdated = None, a_manuallyUpdatedBy = None,
                 a_manuallyCreated = Some True, a_manuallyCreatedBy = Some teacherId,
                 a_verificationResponseTime = None\<rparr>"
  have stored: "attendance (snd (manuallyMarkAttendance st now sessionId studentId status teacherId additionalData))
             (sessionId, studentId) = Some ?m"
    using pre assms(2,3) by (simp add: manuallyMarkAttendance_def Let_def)
  have cmp: "a_deviceInfo (ci_record c) = Some dev \<and>
            a_checkInLocation (ci_record c) \<noteq> None \<and> a_distance (ci_record c) \<noteq> None \<and>
            ?m\<lparr>a_manuallyCreated := None, a_manuallyCreatedBy := None,
              a_checkInLocation := a_checkInLocation (ci_record c),
              a_distance := a_distance (ci_record c),
              a_deviceInfo := a_deviceInfo (ci_record c)\<rparr> = ci_record c"
    if ok: "checkInToSession st now dev sessionId studentId locationData additionalData =
              (Inr c, st')" and s: "a_status (ci_record c) = status"
  proof -
    note c = checkInToSession_record [OF ok pre(6)]
    from c have eq: "ci_record c =
           \<lparr>a_studentId = Some studentId, a_classId = Some (s_classId sessionData),
            a_checkInTime = Some now, a_checkInLocation = a_checkInLocation (ci_record c),
            a_checkOutTime = None, a_status = status,
            a_distance = a_distance (ci_record c),
            a_isGpsVerified = Some (status = ''verified''),
            a_deviceInfo = Some dev, a_additional = Some additionalData,
            a_lastUpdated = Some now, a_manuallyUpdated = None, a_manuallyUpdatedBy = None,
            a_manuallyCreated = None, a_manuallyCreatedBy = None,
            a_verificationResponseTime = None\<rparr>"
      unfolding s by blast
    have dev: "a_deviceInfo (ci_record c) = Some dev"
      by (subst eq) simp
    have "?m\<lparr>a_manuallyCreated := None, a_manuallyCreatedBy := None,
              a_checkInLocation := a_checkInLocation (ci_record c),
              a_distance := a_distance (ci_record c),
              a_deviceInfo := a_deviceInfo (ci_record c)\<rparr> = ci_record c"
      unfolding dev by (subst (3) eq) simp
    with dev c show ?thesis by blast
  qed
  from pre(6) stored cmp show ?thesis by blast
qed

theorem manuallyMarkAttendance_creates_record_witness:
  "fst (manuallyMarkAttendance
      (ex_store [(''s1'', ex_session ''s1'' ''active'' None)] Map.empty)
      5000 ''s1'' ''u1'' ''verified'' ''t1'' Map.empty) =
     Inr \<lparr>mr_message = ''Student attendance successfully marked as '' @ [CHR 0x27] @
                         ''verified'' @ [CHR 0x27],
          mr_status = ''verified'', mr_additionalData = Map.empty\<rparr> \<and>
   attendance (snd (manuallyMarkAttendance
      (ex_store [(''s1'', ex_session ''s1'' ''active'' None)] Map.empty)
      5000 ''s1'' ''u1'' ''verified'' ''t1'' Map.empty)) (''s1'', ''u1'') =
     Some (ex_manual ''verified'') \<and>
   checkInToSession (ex_store [(''s1'', ex_session ''s1'' ''active'' None)] Map.empty)
     5000 (''agent'', ''platform'') ''s1'' ''u1'' (ex_location 0) Map.empty =
     (Inr \<lparr>ci_record = ex_checkin 0 0 True, ci_isWithinRadius = True,
           ci_message = ''Check-in successful! Your attendance has been verified.''\<rparr>,
      ex_store [(''s1'', ex_session ''s1'' ''active'' None)]
        [(''s1'', ''u1'') \<mapsto> ex_checkin 0 0 True]) \<and>
   a_deviceInfo (ex_checkin 0 0 True) = Some (''agent'', ''platform'') \<and>
   (ex_manual ''verified'')
      \<lparr>a_manuallyCreated := None, a_manuallyCreatedBy := None,
       a_checkInLocation := a_checkInLocation (ex_checkin 0 0 True),
       a_distance := a_distance (ex_checkin 0 0 True),
       a_deviceInfo := a_deviceInfo (ex_checkin 0 0 True)\<rparr> = ex_checkin 0 0 True"
proof -
  let ?S = "ex_store [(''s1'', ex_session ''s1'' ''active'' None)] Map.empty"
  have ok: "fst (manuallyMarkAttendance ?S 5000 ''s1'' ''u1'' ''verified'' ''t1'' Map.empty) =
     Inr \<lparr>mr_message = ''Student attendance successfully marked as '' @ [CHR 0x27] @
                         ''verified'' @ [CHR 0x27],
          mr_status = ''verified'', mr_additionalData = Map.empty\<rparr>"
    by (simp add: manuallyMarkAttendance_def validStatuses_def ex_store_def ex_session_def
        Let_def)
  have ne: "''verified'' \<noteq> ''absent''" by simp
  have none: "attendance ?S (''s1'', ''u1'') = None" by (simp add: ex_store_def)
  have ci: "checkInToSession ?S 5000 (''agent'', ''platform'') ''s1'' ''u1'' (ex_location 0) Map.empty =
     (Inr \<lparr>ci_record = ex_checkin 0 0 True, ci_isWithinRadius = True,
           ci_message = ''Check-in successful! Your attendance has been verified.''\<rparr>,
      ex_store [(''s1'', ex_session ''s1'' ''active'' None)]
        [(''s1'', ''u1'') \<mapsto> ex_checkin 0 0 True])"
    by (simp add: checkInToSession_def validateLocationForSession_def numericLocation_def
        ex_location_def ex_store_def ex_session_def ex_checkin_def GeoPoint_def
        calculateDistance_same Let_def)
  have st: "a_status (ci_record \<lparr>ci_record = ex_checkin 0 0 True, ci_isWithinRadius = True,
           ci_message = ''Check-in successful! Your attendance has been verified.''\<rparr>) =
           ''verified''"
    by (simp add: ex_checkin_def)
  from manuallyMarkAttendance_creates_record [OF ok ne none,
         of "(''agent'', ''platform'')" "ex_location 0"
            "\<lparr>ci_record = ex_checkin 0 0 True, ci_isWithinRadius = True,
              ci_message = ''Check-in successful! Your attendance has been verified.''\<rparr>"
            "ex_store [(''s1'', ex_session ''s1'' ''active'' None)]
               [(''s1'', ''u1'') \<mapsto> ex_checkin 0 0 True]"]
       ok ci st
  show ?thesis
    by (auto simp: ex_store_def ex_session_def ex_manual_def)
qed

end
